theory Spec2Isabelle
  imports Main "HOL-Library.Word"
begin

section \<open>Python values, errors and strings\<close>

text \<open>
  The driver \<open>LogitechHero502\<close> of \<open>liquidctl/driver/logitech_g502.py\<close> is embedded
  method by method. A Python value that reaches a place where the code does not fix its
  type is a \<open>pyobj\<close>: an integer, a string, or \<open>PyOther\<close>, which stands for any object
  that is neither and has no \<open>__index__\<close> (a float, \<open>None\<close>, ...). Raised exceptions
  are values of \<open>error\<close>; a method returns its result (or its error) together with the
  driver it leaves behind.
\<close>

type_synonym byte = "8 word"

datatype pyobj = PyInt int | PyStr string | PyOther

datatype error =
    ValueError string
  | TypeError
  | IndexError
  | NotSupportedByDevice

text \<open>
  \<open>==\<close> between an integer and a string is \<open>False\<close> in Python, never an error.
\<close>

fun py_eq :: "pyobj \<Rightarrow> pyobj \<Rightarrow> bool" where
  "py_eq (PyInt a) (PyInt b) = (a = b)"
| "py_eq (PyStr a) (PyStr b) = (a = b)"
| "py_eq _ _ = False"

text \<open>
  Strings are ASCII text, one \<open>char\<close> per character; \<open>str.lower\<close> then maps
  \<open>A\<close>..\<open>Z\<close> to \<open>a\<close>..\<open>z\<close> and leaves every other character alone.
\<close>

definition char_lower :: "char \<Rightarrow> char" where
  "char_lower c =
     (case map_of (zip ''ABCDEFGHIJKLMNOPQRSTUVWXYZ'' ''abcdefghijklmnopqrstuvwxyz'') c of
        Some l \<Rightarrow> l
      | None \<Rightarrow> c)"

definition lower :: "string \<Rightarrow> string" where
  "lower s = map char_lower s"

text \<open>\<open>sep.join(xs)\<close>\<close>

fun join :: "string \<Rightarrow> string list \<Rightarrow> string" where
  "join sep [] = []"
| "join sep [x] = x"
| "join sep (x # y # ys) = x @ sep @ join sep (y # ys)"

text \<open>Sequencing of steps that may raise: the first error ends the computation.\<close>

fun and_then :: "error + 'a \<Rightarrow> ('a \<Rightarrow> error + 'b) \<Rightarrow> error + 'b" where
  "and_then (Inl e) f = Inl e"
| "and_then (Inr x) f = f x"

text \<open>\<open>xs[i]\<close> for a literal index \<open>i \<ge> 0\<close>: out of range raises \<open>IndexError\<close>.\<close>

definition getitem :: "'a list \<Rightarrow> nat \<Rightarrow> error + 'a" where
  "getitem xs i = (if i < length xs then Inr (xs ! i) else Inl IndexError)"

text \<open>
  \<open>buf[i] = v\<close> on a \<open>bytearray\<close>: \<open>v\<close> must be an integer in \<open>range(0, 256)\<close>
  (\<open>ValueError\<close> otherwise, \<open>TypeError\<close> for a value that is no integer), and \<open>i\<close>
  must be in range.
\<close>

fun setitem :: "byte list \<Rightarrow> nat \<Rightarrow> pyobj \<Rightarrow> error + byte list" where
  "setitem buf i (PyInt n) =
     (if 0 \<le> n \<and> n < 256
      then (if i < length buf then Inr (buf[i := word_of_int n]) else Inl IndexError)
      else Inl (ValueError ''byte must be in range(0, 256)''))"
| "setitem buf i (PyStr s) = Inl TypeError"
| "setitem buf i PyOther = Inl TypeError"

section \<open>The HID transport\<close>

text \<open>
  The transport (\<open>self.device\<close>) is external to the driver. Its model keeps a log of the
  calls made on it, the reports received from the device and not yet read, and the
  device's answer to a written report, an arbitrary function the driver knows nothing
  about. Failures of the transport itself (I/O errors, a device that was unplugged) are
  outside the model. The method \<open>write\<close> is \<open>device_write\<close> here, \<open>write\<close> being
  a keyword of Isabelle.
\<close>

datatype hid_call = ClearEnqueuedReports | Write "byte list" | Read nat

record hid_device =
  calls :: "hid_call list"
  enqueued :: "byte list list"
  reply :: "byte list \<Rightarrow> byte list list"

definition clear_enqueued_reports :: "hid_device \<Rightarrow> hid_device" where
  "clear_enqueued_reports dev =
     dev\<lparr>calls := calls dev @ [ClearEnqueuedReports], enqueued := []\<rparr>"

definition device_write :: "hid_device \<Rightarrow> byte list \<Rightarrow> nat \<times> hid_device" where
  "device_write dev buf =
     (length buf,
      dev\<lparr>calls := calls dev @ [Write buf], enqueued := enqueued dev @ reply dev buf\<rparr>)"

definition read :: "hid_device \<Rightarrow> nat \<Rightarrow> byte list \<times> hid_device" where
  "read dev n =
     (case enqueued dev of
        [] \<Rightarrow> ([], dev\<lparr>calls := calls dev @ [Read n]\<rparr>)
      | r # rs \<Rightarrow> (take n r, dev\<lparr>calls := calls dev @ [Read n], enqueued := rs\<rparr>))"

section \<open>The driver\<close>

text \<open>
  \<open>RuntimeStorage\<close> is external; the driver only hands it the two key prefixes.
\<close>

record runtime_storage =
  key_prefixes :: "string list"

record driver =
  device :: hid_device
  vendor_id :: nat
  product_id :: nat
  address :: string
  data :: "runtime_storage option"

type_synonym kwargs = "(string \<times> pyobj) list"

type_synonym status = "(string \<times> pyobj \<times> string) list"

subsection \<open>connect\<close>

text \<open>
  The format specification \<open>04x\<close>: lowercase hexadecimal, padded with zeros on the left
  to a width of at least four.
\<close>

definition hex_digit :: "nat \<Rightarrow> char" where
  "hex_digit d = ''0123456789abcdef'' ! d"

fun to_hex :: "nat \<Rightarrow> string" where
  "to_hex n = (if n < 16 then [hex_digit n] else to_hex (n div 16) @ [hex_digit (n mod 16)])"

declare to_hex.simps [simp del]

definition format_04x :: "nat \<Rightarrow> string" where
  "format_04x n = replicate (4 - length (to_hex n)) CHR ''0'' @ to_hex n"

text \<open>
  \<open>re.findall(r'\d+', s)\<close>: the scan skips to the next digit, takes digits as long as
  there are any (\<open>+\<close> is greedy), and goes on behind the match. On ASCII text \<open>\d\<close> is
  one of \<open>0\<close>..\<open>9\<close>.
\<close>

definition is_digit :: "char \<Rightarrow> bool" where
  "is_digit c = (c \<in> set ''0123456789'')"

function findall_digits :: "string \<Rightarrow> string list" where
  "findall_digits s =
     (case dropWhile (\<lambda>c. \<not> is_digit c) s of
        [] \<Rightarrow> []
      | c # cs \<Rightarrow> (c # takeWhile is_digit cs) # findall_digits (dropWhile is_digit cs))"
  by pat_completeness auto
termination
proof (relation "measure length")
  show "wf (measure length)" by simp
next
  fix s :: string and c cs
  assume "dropWhile (\<lambda>c. \<not> is_digit c) s = c # cs"
  then have "Suc (length cs) \<le> length s"
    by (metis length_Cons length_dropWhile_le)
  moreover have "length (dropWhile is_digit cs) \<le> length cs"
    by (rule length_dropWhile_le)
  ultimately show "(dropWhile is_digit cs, s) \<in> measure length" by simp
qed

declare findall_digits.simps [simp del]

text \<open>
  Lines 42 to 49. \<open>super().connect\<close> belongs to the external base class and is not
  modelled; \<open>_data\<close> receives the storage built from the two keys.
\<close>

definition connect :: "driver \<Rightarrow> kwargs \<Rightarrow> (error + unit) \<times> driver" where
  "connect self kw =
     (let ids = ''vid'' @ format_04x (vendor_id self) @ ''_pid'' @ format_04x (product_id self);
          loc = ''loc'' @ join ''_'' (findall_digits (address self))
      in (Inr (), self\<lparr>data := Some \<lparr>key_prefixes = [ids, loc]\<rparr>\<rparr>))"

subsection \<open>initialize, get_status, set_fixed_speed, set_speed_profile\<close>

definition initialize :: "driver \<Rightarrow> pyobj \<Rightarrow> kwargs \<Rightarrow> (error + status) \<times> driver" where
  "initialize self pump_mode kw = (Inr [], self)"

definition get_status :: "driver \<Rightarrow> kwargs \<Rightarrow> (error + status) \<times> driver" where
  "get_status self kw = (Inr [], self)"

definition set_fixed_speed ::
  "driver \<Rightarrow> pyobj \<Rightarrow> pyobj \<Rightarrow> kwargs \<Rightarrow> (error + unit) \<times> driver" where
  "set_fixed_speed self channel duty kw = (Inl NotSupportedByDevice, self)"

definition set_speed_profile ::
  "driver \<Rightarrow> pyobj \<Rightarrow> pyobj \<Rightarrow> kwargs \<Rightarrow> (error + unit) \<times> driver" where
  "set_speed_profile self channel profile kw = (Inl NotSupportedByDevice, self)"

subsection \<open>set_color\<close>

definition REPORT_LENGTH :: nat where
  "REPORT_LENGTH = 20"

text \<open>Lines 124 to 129: \<open>channel\<close> is rebound to its numeric code.\<close>

definition channel_code :: "string \<Rightarrow> error + pyobj" where
  "channel_code channel =
     (if channel = ''dpi'' then Inr (PyInt 0x00)
      else if channel = ''logo'' then Inr (PyInt 0x01)
      else Inl (ValueError
        (''Channel '' @ channel @ '' invalid, must be one of (\"dpi\", \"logo\")'')))"

text \<open>Lines 132 to 141: \<open>mode\<close> is rebound to its numeric code.\<close>

definition mode_code :: "string \<Rightarrow> error + pyobj" where
  "mode_code mode =
     (if mode = ''off'' then Inr (PyInt 0x00)
      else if mode = ''fixed'' then Inr (PyInt 0x01)
      else if mode = ''breathing'' then Inr (PyInt 0x02)
      else if mode = ''rainbow'' then Inr (PyInt 0x03)
      else Inl (ValueError
        (''Mode '' @ mode @
         '' invalid, must be one of (\"off\", \"fixed\", \"breathing\", \"rainbow\")'')))"

text \<open>
  Lines 145 and 146. The test compares \<open>mode\<close>, by now the numeric code, with the
  strings \<open>'fixed'\<close> and \<open>'breathing'\<close>.
\<close>

definition check_color_count :: "pyobj \<Rightarrow> pyobj list list \<Rightarrow> error + unit" where
  "check_color_count mode colors =
     (if (py_eq mode (PyStr ''fixed'') \<or> py_eq mode (PyStr ''breathing''))
         \<and> length colors \<noteq> 1
      then Inl (ValueError ''One color must be given'')
      else Inr ())"

text \<open>Line 148.\<close>

definition resolve_color :: "pyobj list list \<Rightarrow> pyobj list" where
  "resolve_color colors =
     (if length colors = 0 then [PyInt 0, PyInt 0, PyInt 0] else colors ! 0)"

text \<open>Lines 153 to 166: the buffer is built, one assignment after the other.\<close>

definition build_report :: "pyobj \<Rightarrow> pyobj \<Rightarrow> pyobj list \<Rightarrow> error + byte list" where
  "build_report channel mode color =
     and_then (Inr (replicate (REPORT_LENGTH + 1) 0)) (\<lambda>buf.
     and_then (setitem buf 1 (PyInt 0x11)) (\<lambda>buf.
     and_then (setitem buf 2 (PyInt 0xFF)) (\<lambda>buf.
     and_then (setitem buf 3 (PyInt 0x02)) (\<lambda>buf.
     and_then (setitem buf 4 (PyInt 0x3A)) (\<lambda>buf.
     and_then (setitem buf 5 channel) (\<lambda>buf.
     and_then (setitem buf 6 mode) (\<lambda>buf.
     and_then (and_then (getitem color 0) (setitem buf 7)) (\<lambda>buf.
     and_then (and_then (getitem color 1) (setitem buf 8)) (\<lambda>buf.
     and_then (and_then (getitem color 2) (setitem buf 9)) (\<lambda>buf.
     if py_eq mode (PyInt 0x01) then setitem buf 10 (PyInt 0x02) else Inr buf))))))))))"

text \<open>
  Lines 168 to 171: the queue is cleared, the buffer written, and a response of
  \<open>REPORT_LENGTH\<close> bytes read into a local variable that is never used.
\<close>

definition exchange :: "hid_device \<Rightarrow> byte list \<Rightarrow> hid_device" where
  "exchange dev buf =
     (let dev = clear_enqueued_reports dev;
          (count, dev) = device_write dev buf;
          (response, dev) = read dev REPORT_LENGTH
      in dev)"

definition set_color ::
  "driver \<Rightarrow> string \<Rightarrow> string \<Rightarrow> pyobj list list \<Rightarrow> string list option \<Rightarrow> kwargs
     \<Rightarrow> (error + unit) \<times> driver" where
  "set_color self channel mode colors unsafe kw =
     (case channel_code (lower channel) of
        Inl e \<Rightarrow> (Inl e, self)
      | Inr channel \<Rightarrow>
     (case mode_code (lower mode) of
        Inl e \<Rightarrow> (Inl e, self)
      | Inr mode \<Rightarrow>
     (case check_color_count mode colors of
        Inl e \<Rightarrow> (Inl e, self)
      | Inr _ \<Rightarrow>
     (case build_report channel mode (resolve_color colors) of
        Inl e \<Rightarrow> (Inl e, self)
      | Inr buf \<Rightarrow> (Inr (), self\<lparr>device := exchange (device self) buf\<rparr>)))))"

section \<open>The storage keys as the specification words them\<close>

text \<open>
  The specification describes the vendor and product parts as four hexadecimal digits,
  and the location part through the maximal runs of decimal digits of the address. Both
  descriptions are written down independently of the code: the four digits by their
  place values, the runs as the non-empty pieces that remain when the address is cut at
  every character that is not a digit.
\<close>

definition hex4 :: "nat \<Rightarrow> string" where
  "hex4 n = [hex_digit (n div 4096 mod 16), hex_digit (n div 256 mod 16),
             hex_digit (n div 16 mod 16), hex_digit (n mod 16)]"

fun fields :: "string \<Rightarrow> string list" where
  "fields [] = [[]]"
| "fields (c # cs) =
     (if is_digit c then (c # hd (fields cs)) # tl (fields cs) else [] # fields cs)"

definition digit_runs :: "string \<Rightarrow> string list" where
  "digit_runs s = filter (\<lambda>r. r \<noteq> []) (fields s)"

section \<open>An example device\<close>

text \<open>
  The supported device (vendor \<open>0x046D\<close>, product \<open>0xC08B\<close>) at a macOS address,
  not yet connected, with nothing queued and a device that never answers.
\<close>

definition g502 :: driver where
  "g502 =
     \<lparr>device = \<lparr>calls = [], enqueued = [], reply = (\<lambda>buf. [])\<rparr>,
      vendor_id = 0x046D, product_id = 0xC08B,
      address = ''IOService:/AppleUSB/.../3/4'', data = None\<rparr>"

section \<open>Auxiliary facts\<close>

lemma channel_code_Inr:
  "channel_code s = Inr v \<longleftrightarrow>
     (s = ''dpi'' \<and> v = PyInt 0) \<or> (s = ''logo'' \<and> v = PyInt 1)"
  by (auto simp: channel_code_def)

lemma mode_code_Inr:
  "mode_code s = Inr v \<longleftrightarrow>
     (s = ''off'' \<and> v = PyInt 0) \<or> (s = ''fixed'' \<and> v = PyInt 1)
     \<or> (s = ''breathing'' \<and> v = PyInt 2) \<or> (s = ''rainbow'' \<and> v = PyInt 3)"
  by (auto simp: mode_code_def)

text \<open>The colour count test of lines 145 and 146 passes for every numeric mode code.\<close>

lemma check_color_count_int: "check_color_count (PyInt m) colors = Inr ()"
  by (simp add: check_color_count_def)

text \<open>Line 148 takes the first colour, or black when there is none.\<close>

lemma resolve_color_first:
  "resolve_color colors =
     (case colors of [] \<Rightarrow> [PyInt 0, PyInt 0, PyInt 0] | first # others \<Rightarrow> first)"
  by (cases colors) (simp_all add: resolve_color_def)

lemma build_report_layout:
  assumes "0 \<le> c" "c < 256" "0 \<le> m" "m < 256"
    and "0 \<le> r" "r < 256" "0 \<le> g" "g < 256" "0 \<le> b" "b < 256"
  shows "build_report (PyInt c) (PyInt m) (PyInt r # PyInt g # PyInt b # rest) =
    Inr [0, 0x11, 0xFF, 0x02, 0x3A, word_of_int c, word_of_int m,
         word_of_int r, word_of_int g, word_of_int b, (if m = 1 then 0x02 else 0),
         0, 0, 0, 0, 0, 0, 0, 0, 0, 0]"
  using assms
  by (simp add: build_report_def REPORT_LENGTH_def getitem_def numeral_eq_Suc)

lemma exchange_calls:
  "calls (exchange dev buf) = calls dev @ [ClearEnqueuedReports, Write buf, Read 20]"
  by (cases "reply dev buf")
    (simp_all add: exchange_def clear_enqueued_reports_def device_write_def read_def
      REPORT_LENGTH_def Let_def)

lemma exchange_enqueued:
  "enqueued (exchange dev buf) = drop 1 (reply dev buf)"
  by (cases "reply dev buf")
    (simp_all add: exchange_def clear_enqueued_reports_def device_write_def read_def
      REPORT_LENGTH_def Let_def)

lemma set_color_valid:
  assumes ch: "channel_code (lower channel) = Inr (PyInt c)"
    and md: "mode_code (lower mode) = Inr (PyInt m)"
    and col: "resolve_color colors = PyInt r # PyInt g # PyInt b # rest"
    and rng: "0 \<le> r" "r < 256" "0 \<le> g" "g < 256" "0 \<le> b" "b < 256"
  shows "set_color self channel mode colors unsafe kw =
    (Inr (), self\<lparr>device := exchange (device self)
       [0, 0x11, 0xFF, 0x02, 0x3A, word_of_int c, word_of_int m,
        word_of_int r, word_of_int g, word_of_int b, (if m = 1 then 0x02 else 0),
        0, 0, 0, 0, 0, 0, 0, 0, 0, 0]\<rparr>)"
proof -
  from ch have c: "0 \<le> c" "c < 256" by (auto simp: channel_code_Inr)
  from md have m: "0 \<le> m" "m < 256" by (auto simp: mode_code_Inr)
  show ?thesis
    by (simp add: set_color_def ch md col check_color_count_int
        build_report_layout [OF c m rng])
qed

subsection \<open>Storing the colour components\<close>

lemma channel_code_valid:
  assumes "s \<in> {''dpi'', ''logo''}"
  shows "channel_code s = Inr (PyInt (if s = ''dpi'' then 0 else 1))"
  using assms by (auto simp: channel_code_def)

lemma mode_code_valid:
  assumes "s \<in> {''off'', ''fixed'', ''breathing'', ''rainbow''}"
  shows "mode_code s = Inr (PyInt (if s = ''off'' then 0 else if s = ''fixed'' then 1
           else if s = ''breathing'' then 2 else 3))"
  using assms by (auto simp: mode_code_def)

lemma store_component:
  fixes f :: "byte list \<Rightarrow> error + byte list"
  assumes "k < length color" and "j < length buf"
  shows "and_then (and_then (getitem color k) (setitem buf j)) f \<in>
           {Inl (ValueError ''byte must be in range(0, 256)''), Inl TypeError}
     \<or> (\<exists>buf'. length buf' = length buf
            \<and> and_then (and_then (getitem color k) (setitem buf j)) f = f buf')"
proof (cases "color ! k")
  case (PyInt n)
  show ?thesis
  proof (cases "0 \<le> n \<and> n < 256")
    case True
    with PyInt assms
    have "and_then (and_then (getitem color k) (setitem buf j)) f = f (buf[j := word_of_int n])"
      by (simp add: getitem_def)
    moreover have "length (buf[j := word_of_int n]) = length buf" by simp
    ultimately show ?thesis by blast
  next
    case False
    with PyInt assms show ?thesis by (auto simp: getitem_def)
  qed
next
  case (PyStr s)
  with assms show ?thesis by (simp add: getitem_def)
next
  case PyOther
  with assms show ?thesis by (simp add: getitem_def)
qed

lemma store_bad_component:
  fixes f :: "byte list \<Rightarrow> error + byte list"
  assumes "k < length color" and "\<forall>n. color ! k = PyInt n \<longrightarrow> n < 0 \<or> 255 < n"
  shows "and_then (and_then (getitem color k) (setitem buf j)) f \<in>
           {Inl (ValueError ''byte must be in range(0, 256)''), Inl TypeError}"
  using assms by (cases "color ! k") (auto simp: getitem_def)

lemma build_report_bad:
  assumes c: "0 \<le> c" "c < 256" and m: "0 \<le> m" "m < 256"
    and i: "i < 3" "i < length color"
    and bad: "\<forall>n. color ! i = PyInt n \<longrightarrow> n < 0 \<or> 255 < n"
  shows "build_report (PyInt c) (PyInt m) color \<in>
           {Inl (ValueError ''byte must be in range(0, 256)''), Inl TypeError}"
proof -
  let ?E = "{Inl (ValueError ''byte must be in range(0, 256)''), Inl TypeError}
              :: (error + byte list) set"
  define B :: "byte list" where
    "B = [0, 0x11, 0xFF, 0x02, 0x3A, word_of_int c, word_of_int m,
          0, 0, 0, 0, 0, 0, 0, 0, 0, 0, 0, 0, 0, 0]"
  define f3 where "f3 = (\<lambda>buf :: byte list.
     if py_eq (PyInt m) (PyInt 0x01) then setitem buf 10 (PyInt 0x02) else Inr buf)"
  define f2 where "f2 = (\<lambda>buf. and_then (and_then (getitem color 2) (setitem buf 9)) f3)"
  define f1 where "f1 = (\<lambda>buf. and_then (and_then (getitem color 1) (setitem buf 8)) f2)"
  have br: "build_report (PyInt c) (PyInt m) color =
      and_then (and_then (getitem color 0) (setitem B 7)) f1"
    using c m
    by (simp add: build_report_def REPORT_LENGTH_def B_def f1_def f2_def f3_def numeral_eq_Suc)
  consider "i = 0" | "i = 1" | "i = 2" using i by linarith
  then show ?thesis
  proof cases
    case 1
    with i bad show ?thesis unfolding br by (intro store_bad_component) simp_all
  next
    case 2
    with i have l0: "0 < length color" by linarith
    have s1: "f1 buf \<in> ?E" for buf
      unfolding f1_def using i bad 2 by (intro store_bad_component) simp_all
    have "7 < length B" by (simp add: B_def)
    from store_component [OF l0 this, of f1] show ?thesis
      unfolding br
    proof (elim disjE exE conjE)
      fix buf'
      assume "and_then (and_then (getitem color 0) (setitem B 7)) f1 = f1 buf'"
      with s1 [of buf']
      show "and_then (and_then (getitem color 0) (setitem B 7)) f1 \<in> ?E" by simp
    qed
  next
    case 3
    with i have l: "0 < length color" "1 < length color" by linarith+
    have s2: "f2 buf \<in> ?E" for buf
      unfolding f2_def using i bad 3 by (intro store_bad_component) simp_all
    have s1: "f1 buf \<in> ?E" if "length buf = length B" for buf
    proof -
      from that have "8 < length buf" by (simp add: B_def)
      from store_component [OF l(2) this, of f2] show ?thesis
        unfolding f1_def
      proof (elim disjE exE conjE)
        fix buf'
        assume "and_then (and_then (getitem color 1) (setitem buf 8)) f2 = f2 buf'"
        with s2 [of buf']
        show "and_then (and_then (getitem color 1) (setitem buf 8)) f2 \<in> ?E" by simp
      qed
    qed
    have "7 < length B" by (simp add: B_def)
    from store_component [OF l(1) this, of f1] show ?thesis
      unfolding br
    proof (elim disjE exE conjE)
      fix buf'
      assume "length buf' = length B"
        and "and_then (and_then (getitem color 0) (setitem B 7)) f1 = f1 buf'"
      with s1 [of buf']
      show "and_then (and_then (getitem color 0) (setitem B 7)) f1 \<in> ?E" by simp
    qed
  qed
qed

subsection \<open>Hexadecimal digits\<close>

lemma to_hex_small: "n < 16 \<Longrightarrow> to_hex n = [hex_digit n]"
  by (simp add: to_hex.simps)

lemma to_hex_large: "16 \<le> n \<Longrightarrow> to_hex n = to_hex (n div 16) @ [hex_digit (n mod 16)]"
  by (subst to_hex.simps) simp

lemma hex_digit_0: "hex_digit 0 = CHR ''0''"
  by (simp add: hex_digit_def)

lemma replicate_small:
  "replicate 3 x = [x, x, x]" "replicate 2 x = [x, x]" "replicate 1 x = [x]"
  by (simp_all add: numeral_3_eq_3 numeral_2_eq_2)

lemma format_04x_hex4:
  assumes "n < 65536"
  shows "format_04x n = hex4 n"
proof -
  consider "n < 16" | "16 \<le> n" "n < 256" | "256 \<le> n" "n < 4096" | "4096 \<le> n"
    by linarith
  then show ?thesis
  proof cases
    case 1
    then show ?thesis
      by (simp add: format_04x_def hex4_def to_hex_small hex_digit_0 replicate_small)
  next
    case 2
    then have "n div 16 < 16" by simp
    with 2 show ?thesis
      by (simp add: format_04x_def hex4_def to_hex_small to_hex_large hex_digit_0
          replicate_small)
  next
    case 3
    then have "16 \<le> n" "16 \<le> n div 16" "n div 16 div 16 < 16" "n div 16 div 16 = n div 256"
      by (simp_all add: div_mult2_eq [symmetric])
    with 3 show ?thesis
      by (simp add: format_04x_def hex4_def to_hex_small to_hex_large hex_digit_0
          replicate_small)
  next
    case 4
    with assms have "16 \<le> n" "16 \<le> n div 16" "16 \<le> n div 16 div 16"
      "n div 16 div 16 div 16 < 16"
      "n div 16 div 16 = n div 256" "n div 256 div 16 = n div 4096"
      by (simp_all add: div_mult2_eq [symmetric])
    with 4 show ?thesis
      by (simp add: format_04x_def hex4_def to_hex_small to_hex_large hex_digit_0
          replicate_small)
  qed
qed

subsection \<open>Runs of digits\<close>

lemma fields_not_Nil: "fields s \<noteq> []"
  by (induction s) auto

lemma digit_runs_skip: "digit_runs (dropWhile (\<lambda>c. \<not> is_digit c) s) = digit_runs s"
  by (induction s) (auto simp: digit_runs_def)

lemma hd_fields_dropWhile: "hd (fields (dropWhile is_digit s)) = []"
  by (induction s) auto

lemma fields_run:
  "fields s =
     (takeWhile is_digit s @ hd (fields (dropWhile is_digit s)))
       # tl (fields (dropWhile is_digit s))"
  by (induction s) (auto simp: fields_not_Nil)

lemma digit_runs_tl:
  "filter (\<lambda>r. r \<noteq> []) (tl (fields (dropWhile is_digit s))) =
     digit_runs (dropWhile is_digit s)"
proof -
  obtain x xs where f: "fields (dropWhile is_digit s) = x # xs"
    using fields_not_Nil by (cases "fields (dropWhile is_digit s)") auto
  with hd_fields_dropWhile [of s] have "x = []" by simp
  with f show ?thesis by (simp add: digit_runs_def)
qed

lemma digit_runs_run:
  assumes "is_digit c"
  shows "digit_runs (c # cs) = (c # takeWhile is_digit cs) # digit_runs (dropWhile is_digit cs)"
proof -
  have "fields (c # cs) = (c # takeWhile is_digit cs) # tl (fields (dropWhile is_digit cs))"
    using fields_run [of "c # cs"] assms by (simp add: hd_fields_dropWhile)
  then show ?thesis
    by (simp add: digit_runs_def digit_runs_tl [unfolded digit_runs_def])
qed

lemma findall_digits_runs: "findall_digits s = digit_runs s"
proof (induction s rule: findall_digits.induct)
  case (1 s)
  show ?case
  proof (cases "dropWhile (\<lambda>c. \<not> is_digit c) s")
    case Nil
    have "digit_runs s = digit_runs []"
      using digit_runs_skip [of s] by (simp only: Nil)
    then show ?thesis
      by (simp only: findall_digits.simps [of s] Nil list.case) (simp add: digit_runs_def)
  next
    case (Cons c cs)
    then have "is_digit c"
      using hd_dropWhile [of "\<lambda>c. \<not> is_digit c" s] by auto
    then have "digit_runs (c # cs) =
        (c # takeWhile is_digit cs) # digit_runs (dropWhile is_digit cs)"
      by (rule digit_runs_run)
    moreover have "digit_runs (c # cs) = digit_runs s"
      using digit_runs_skip [of s] Cons by simp
    moreover have "findall_digits (dropWhile is_digit cs) = digit_runs (dropWhile is_digit cs)"
      using "1.IH" Cons by simp
    ultimately show ?thesis
      by (simp only: findall_digits.simps [of s] Cons list.case)
  qed
qed

lemma findall_digits_no_digit:
  assumes "\<forall>c \<in> set s. \<not> is_digit c"
  shows "findall_digits s = []"
proof -
  from assms have "dropWhile (\<lambda>c. \<not> is_digit c) s = []" by simp
  then show ?thesis by (simp only: findall_digits.simps [of s] list.case)
qed

section \<open>Validation of the arguments of set_color\<close>

text \<open>
  C4. \<open>channel\<close> and \<open>mode\<close> are lowercased first. A lowercased channel other than
  \<open>dpi\<close> and \<open>logo\<close> raises \<open>ValueError\<close> with a message that names the lowercased
  value and the accepted set, whatever the mode is, so the channel is checked first. With
  a valid channel, a lowercased mode other than \<open>off\<close>, \<open>fixed\<close>, \<open>breathing\<close> and
  \<open>rainbow\<close> raises \<open>ValueError\<close> likewise. In both cases the driver, and with it the
  transport and its log of calls, is left as it was.
\<close>

theorem set_color_rejects_unknown_names:
  "(lower channel \<notin> {''dpi'', ''logo''} \<longrightarrow>
      set_color self channel mode colors unsafe kw =
        (Inl (ValueError (''Channel '' @ lower channel @
                '' invalid, must be one of (\"dpi\", \"logo\")'')), self))
   \<and> (lower channel \<in> {''dpi'', ''logo''}
        \<and> lower mode \<notin> {''off'', ''fixed'', ''breathing'', ''rainbow''} \<longrightarrow>
      set_color self channel mode colors unsafe kw =
        (Inl (ValueError (''Mode '' @ lower mode @
                '' invalid, must be one of (\"off\", \"fixed\", \"breathing\", \"rainbow\")'')),
         self))"
  by (simp add: set_color_def channel_code_def mode_code_def)

theorem set_color_rejects_unknown_names_witness:
  "set_color g502 ''wheel'' ''fixed'' [[PyInt 0, PyInt 0, PyInt 0]] None [] =
     (Inl (ValueError ''Channel wheel invalid, must be one of (\"dpi\", \"logo\")''), g502)
   \<and> set_color g502 ''Wheel'' ''blink'' [] None [] =
     (Inl (ValueError ''Channel wheel invalid, must be one of (\"dpi\", \"logo\")''), g502)
   \<and> set_color g502 ''LOGO'' ''Blink'' [] None [] =
     (Inl (ValueError
        ''Mode blink invalid, must be one of (\"off\", \"fixed\", \"breathing\", \"rainbow\")''),
      g502)"
  using set_color_rejects_unknown_names [of "''wheel''" g502 "''fixed''" "[[PyInt 0, PyInt 0, PyInt 0]]" None "[]"]
    set_color_rejects_unknown_names [of "''Wheel''" g502 "''blink''" "[]" None "[]"]
    set_color_rejects_unknown_names [of "''LOGO''" g502 "''Blink''" "[]" None "[]"]
  by (simp add: lower_def char_lower_def)

text \<open>
  C1. The specification wants \<open>fixed\<close> and \<open>breathing\<close> with a number of colours
  other than one to fail. The test of lines 145 and 146 compares the numeric mode code with the
  strings \<open>'fixed'\<close> and \<open>'breathing'\<close> and so never fires
  (\<open>check_color_count_int\<close>): \<open>breathing\<close> on \<open>logo\<close> with the two colours
  \<open>(1,2,3)\<close> and \<open>(4,5,6)\<close> returns normally, having cleared the queue, written the
  report for the first colour and read the answer.
\<close>

theorem set_color_breathing_two_colors:
  "fst (set_color self ''logo'' ''breathing''
          [[PyInt 1, PyInt 2, PyInt 3], [PyInt 4, PyInt 5, PyInt 6]] unsafe kw) = Inr ()
   \<and> calls (device (snd (set_color self ''logo'' ''breathing''
          [[PyInt 1, PyInt 2, PyInt 3], [PyInt 4, PyInt 5, PyInt 6]] unsafe kw))) =
     calls (device self) @
     [ClearEnqueuedReports,
      Write [0, 0x11, 0xFF, 0x02, 0x3A, 0x01, 0x02, 1, 2, 3, 0, 0, 0, 0, 0, 0, 0, 0, 0, 0, 0],
      Read 20]"
proof -
  have "set_color self ''logo'' ''breathing''
          [[PyInt 1, PyInt 2, PyInt 3], [PyInt 4, PyInt 5, PyInt 6]] unsafe kw =
        (Inr (), self\<lparr>device := exchange (device self)
           [0, 0x11, 0xFF, 0x02, 0x3A, word_of_int 1, word_of_int 2,
            word_of_int 1, word_of_int 2, word_of_int 3, (if (2::int) = 1 then 0x02 else 0),
            0, 0, 0, 0, 0, 0, 0, 0, 0, 0]\<rparr>)"
    by (rule set_color_valid [where rest = "[]"])
      (simp_all add: lower_def char_lower_def channel_code_def mode_code_def resolve_color_def)
  then show ?thesis by (simp add: exchange_calls)
qed

text \<open>
  C9. With a valid channel and mode, if one of the first three components of the resolved
  colour is an integer outside 0..255 or no integer at all, \<open>set_color\<close> raises while
  the buffer is built (\<open>ValueError\<close> from the byte range check or \<open>TypeError\<close>; the
  value is neither clamped nor truncated), and the driver, with its transport and the log
  of calls, is left as it was.
\<close>

theorem set_color_rejects_bad_component:
  assumes ch: "lower channel \<in> {''dpi'', ''logo''}"
    and md: "lower mode \<in> {''off'', ''fixed'', ''breathing'', ''rainbow''}"
    and i: "i < 3" "i < length (resolve_color colors)"
    and bad: "\<forall>n. resolve_color colors ! i = PyInt n \<longrightarrow> n < 0 \<or> 255 < n"
  shows "set_color self channel mode colors unsafe kw =
           (Inl (ValueError ''byte must be in range(0, 256)''), self)
     \<or> set_color self channel mode colors unsafe kw = (Inl TypeError, self)"
proof -
  note c = channel_code_valid [OF ch]
  note m = mode_code_valid [OF md]
  have "build_report (PyInt (if lower channel = ''dpi'' then 0 else 1))
          (PyInt (if lower mode = ''off'' then 0 else if lower mode = ''fixed'' then 1
                  else if lower mode = ''breathing'' then 2 else 3))
          (resolve_color colors)
        \<in> {Inl (ValueError ''byte must be in range(0, 256)''), Inl TypeError}"
    by (rule build_report_bad [OF _ _ _ _ i bad]) simp_all
  then show ?thesis
    by (auto simp: set_color_def c m check_color_count_int)
qed

theorem set_color_rejects_bad_component_witness:
  "(set_color g502 ''logo'' ''fixed'' [[PyInt 10, PyInt 256, PyInt 30]] None [] =
      (Inl (ValueError ''byte must be in range(0, 256)''), g502)
    \<or> set_color g502 ''logo'' ''fixed'' [[PyInt 10, PyInt 256, PyInt 30]] None [] =
      (Inl TypeError, g502))
   \<and> (set_color g502 ''DPI'' ''rainbow'' [[PyInt 10, PyInt 20, PyOther]] None [] =
      (Inl (ValueError ''byte must be in range(0, 256)''), g502)
    \<or> set_color g502 ''DPI'' ''rainbow'' [[PyInt 10, PyInt 20, PyOther]] None [] =
      (Inl TypeError, g502))"
  using set_color_rejects_bad_component [of "''logo''" "''fixed''" 1 "[[PyInt 10, PyInt 256, PyInt 30]]" g502 None "[]"]
    set_color_rejects_bad_component [of "''DPI''" "''rainbow''" 2 "[[PyInt 10, PyInt 20, PyOther]]" g502 None "[]"]
  by (simp add: lower_def char_lower_def resolve_color_def)

text \<open>
  C10. \<open>set_color\<close> does not look at \<open>unsafe\<close> nor at the extra keyword arguments:
  two calls that agree on the driver, channel, mode and colours return the same result
  or error and leave the same driver, hence the same log of written reports.
\<close>

theorem set_color_ignores_unsafe_and_kwargs:
  "set_color self channel mode colors unsafe kw = set_color self channel mode colors unsafe' kw'"
  by (simp add: set_color_def)

section \<open>The report written by set_color\<close>

text \<open>
  C2. Take a valid channel and mode, and let the colour be the first entry of \<open>colors\<close>,
  or \<open>(0, 0, 0)\<close> when \<open>colors\<close> is empty; let its first three components be the
  bytes \<open>r\<close>, \<open>g\<close>, \<open>b\<close>. Then the call returns normally and the report it writes
  has the channel code at offset 5 (\<open>dpi\<close> 0, \<open>logo\<close> 1), the mode code at offset 6
  (\<open>off\<close> 0, \<open>fixed\<close> 1, \<open>breathing\<close> 2, \<open>rainbow\<close> 3), \<open>r\<close>, \<open>g\<close>, \<open>b\<close> at
  offsets 7 to 9, \<open>0x02\<close> at offset 10 exactly for \<open>fixed\<close>, the header at offsets
  1 to 4 and zero everywhere else. The witness is the two examples of the specification
  and a request with two colours, of which the first is written.
\<close>

theorem set_color_report_layout:
  assumes ch: "lower channel \<in> {''dpi'', ''logo''}"
    and md: "lower mode \<in> {''off'', ''fixed'', ''breathing'', ''rainbow''}"
    and col: "(case colors of [] \<Rightarrow> [PyInt 0, PyInt 0, PyInt 0] | first # others \<Rightarrow> first) =
                PyInt r # PyInt g # PyInt b # rest"
    and rng: "0 \<le> r" "r < 256" "0 \<le> g" "g < 256" "0 \<le> b" "b < 256"
  shows "fst (set_color self channel mode colors unsafe kw) = Inr ()
    \<and> calls (device (snd (set_color self channel mode colors unsafe kw))) =
      calls (device self) @
      [ClearEnqueuedReports,
       Write [0, 0x11, 0xFF, 0x02, 0x3A,
              (if lower channel = ''dpi'' then 0x00 else 0x01),
              (if lower mode = ''off'' then 0x00 else if lower mode = ''fixed'' then 0x01
               else if lower mode = ''breathing'' then 0x02 else 0x03),
              word_of_int r, word_of_int g, word_of_int b,
              (if lower mode = ''fixed'' then 0x02 else 0x00),
              0, 0, 0, 0, 0, 0, 0, 0, 0, 0],
       Read 20]"
proof -
  note c = channel_code_valid [OF ch]
  note m = mode_code_valid [OF md]
  from col have col': "resolve_color colors = PyInt r # PyInt g # PyInt b # rest"
    by (simp only: resolve_color_first)
  show ?thesis
    using md by (auto simp: set_color_valid [OF c m col' rng] exchange_calls)
qed

theorem set_color_report_layout_witness:
  "calls (device (snd (set_color g502 ''DPI'' ''FIXED'' [[PyInt 10, PyInt 20, PyInt 30]] None []))) =
     [ClearEnqueuedReports,
      Write [0, 0x11, 0xFF, 0x02, 0x3A, 0x00, 0x01, 10, 20, 30, 0x02, 0, 0, 0, 0, 0, 0, 0, 0, 0, 0],
      Read 20]
   \<and> calls (device (snd (set_color g502 ''logo'' ''off'' [] None []))) =
     [ClearEnqueuedReports,
      Write [0, 0x11, 0xFF, 0x02, 0x3A, 0x01, 0x00, 0, 0, 0, 0, 0, 0, 0, 0, 0, 0, 0, 0, 0, 0],
      Read 20]
   \<and> calls (device (snd (set_color g502 ''logo'' ''rainbow''
        [[PyInt 1, PyInt 2, PyInt 3], [PyInt 4, PyInt 5, PyInt 6]] None []))) =
     [ClearEnqueuedReports,
      Write [0, 0x11, 0xFF, 0x02, 0x3A, 0x01, 0x03, 1, 2, 3, 0, 0, 0, 0, 0, 0, 0, 0, 0, 0, 0],
      Read 20]"
  using set_color_report_layout [of "''DPI''" "''FIXED''" "[[PyInt 10, PyInt 20, PyInt 30]]" 10 20 30 "[]" g502 None "[]"]
    set_color_report_layout [of "''logo''" "''off''" "[]" 0 0 0 "[]" g502 None "[]"]
    set_color_report_layout [of "''logo''" "''rainbow''"
      "[[PyInt 1, PyInt 2, PyInt 3], [PyInt 4, PyInt 5, PyInt 6]]" 1 2 3 "[]" g502 None "[]"]
  by (simp add: lower_def char_lower_def g502_def)

text \<open>
  C3. Under the same conditions the buffer written has exactly 21 bytes, and its bytes
  at offsets 1 to 4 are \<open>0x11\<close>, \<open>0xFF\<close>, \<open>0x02\<close>, \<open>0x3A\<close>.
\<close>

theorem set_color_report_header:
  assumes ch: "lower channel \<in> {''dpi'', ''logo''}"
    and md: "lower mode \<in> {''off'', ''fixed'', ''breathing'', ''rainbow''}"
    and col: "resolve_color colors = PyInt r # PyInt g # PyInt b # rest"
    and rng: "0 \<le> r" "r < 256" "0 \<le> g" "g < 256" "0 \<le> b" "b < 256"
  shows "\<exists>buf. calls (device (snd (set_color self channel mode colors unsafe kw))) =
             calls (device self) @ [ClearEnqueuedReports, Write buf, Read 20]
           \<and> length buf = 21
           \<and> buf ! 1 = 0x11 \<and> buf ! 2 = 0xFF \<and> buf ! 3 = 0x02 \<and> buf ! 4 = 0x3A"
proof -
  note c = channel_code_valid [OF ch]
  note m = mode_code_valid [OF md]
  show ?thesis
    by (simp add: set_color_valid [OF c m col rng] exchange_calls)
qed

theorem set_color_report_header_witness:
  "\<exists>buf. calls (device (snd (set_color g502 ''logo'' ''rainbow'' [] None []))) =
             [ClearEnqueuedReports, Write buf, Read 20]
           \<and> length buf = 21
           \<and> buf ! 1 = 0x11 \<and> buf ! 2 = 0xFF \<and> buf ! 3 = 0x02 \<and> buf ! 4 = 0x3A"
  using set_color_report_header [of "''logo''" "''rainbow''" "[]" 0 0 0 "[]" g502 None "[]"]
  by (simp add: lower_def char_lower_def resolve_color_def g502_def)

text \<open>
  C6. Take a valid channel and mode, and let the colour be the first entry of \<open>colors\<close>,
  or \<open>(0, 0, 0)\<close> when \<open>colors\<close> is empty, with the bytes \<open>r\<close>, \<open>g\<close>, \<open>b\<close> as
  its first three components. Let \<open>buf\<close> be the complete report for this request:
  header, channel code, mode code, \<open>r\<close>, \<open>g\<close>, \<open>b\<close>, the flag of \<open>fixed\<close>, zero
  elsewhere, 21 bytes. Then, whatever the state of the transport (what is queued, how the
  device answers), the call returns normally and leaves the transport exactly as
  clearing the queue, then writing \<open>buf\<close> in one call, then reading 20 bytes leave
  it. The log grows by exactly these three calls in this order, and the one buffer
  written is the complete \<open>buf\<close>, never a part of it. What was queued before the call
  is gone afterwards (the queue holds what the device answered to the write, less the
  report read), and the result does not depend on the bytes read.
\<close>

theorem set_color_transport_order:
  assumes ch: "lower channel \<in> {''dpi'', ''logo''}"
    and md: "lower mode \<in> {''off'', ''fixed'', ''breathing'', ''rainbow''}"
    and col: "(case colors of [] \<Rightarrow> [PyInt 0, PyInt 0, PyInt 0] | first # others \<Rightarrow> first) =
                PyInt r # PyInt g # PyInt b # rest"
    and rng: "0 \<le> r" "r < 256" "0 \<le> g" "g < 256" "0 \<le> b" "b < 256"
  shows "let buf = [0, 0x11, 0xFF, 0x02, 0x3A,
                (if lower channel = ''dpi'' then 0x00 else 0x01),
                (if lower mode = ''off'' then 0x00 else if lower mode = ''fixed'' then 0x01
                 else if lower mode = ''breathing'' then 0x02 else 0x03),
                word_of_int r, word_of_int g, word_of_int b,
                (if lower mode = ''fixed'' then 0x02 else 0x00),
                0, 0, 0, 0, 0, 0, 0, 0, 0, 0 :: byte]
    in length buf = 21
      \<and> (\<forall>dev.
          set_color (self\<lparr>device := dev\<rparr>) channel mode colors unsafe kw =
            (Inr (),
             self\<lparr>device :=
               snd (read (snd (device_write (clear_enqueued_reports dev) buf)) 20)\<rparr>)
          \<and> calls (snd (read (snd (device_write (clear_enqueued_reports dev) buf)) 20)) =
              calls dev @ [ClearEnqueuedReports, Write buf, Read 20]
          \<and> enqueued (snd (read (snd (device_write (clear_enqueued_reports dev) buf)) 20)) =
              drop 1 (reply dev buf))"
proof -
  note c = channel_code_valid [OF ch]
  note m = mode_code_valid [OF md]
  from col have col': "resolve_color colors = PyInt r # PyInt g # PyInt b # rest"
    by (simp only: resolve_color_first)
  define buf :: "byte list" where
    "buf = [0, 0x11, 0xFF, 0x02, 0x3A,
                (if lower channel = ''dpi'' then 0x00 else 0x01),
                (if lower mode = ''off'' then 0x00 else if lower mode = ''fixed'' then 0x01
                 else if lower mode = ''breathing'' then 0x02 else 0x03),
                word_of_int r, word_of_int g, word_of_int b,
                (if lower mode = ''fixed'' then 0x02 else 0x00),
                0, 0, 0, 0, 0, 0, 0, 0, 0, 0 :: byte]"
  have len: "length buf = 21" by (simp add: buf_def)
  have ex: "snd (read (snd (device_write (clear_enqueued_reports dev) buf)) 20) = exchange dev buf"
    for dev
    by (simp add: exchange_def REPORT_LENGTH_def Let_def split: prod.split)
  have "set_color (self\<lparr>device := dev\<rparr>) channel mode colors unsafe kw =
          (Inr (), self\<lparr>device := exchange dev buf\<rparr>)" for dev
    using md by (auto simp: set_color_valid [OF c m col' rng] buf_def)
  with len have "length buf = 21
      \<and> (\<forall>dev.
          set_color (self\<lparr>device := dev\<rparr>) channel mode colors unsafe kw =
            (Inr (),
             self\<lparr>device :=
               snd (read (snd (device_write (clear_enqueued_reports dev) buf)) 20)\<rparr>)
          \<and> calls (snd (read (snd (device_write (clear_enqueued_reports dev) buf)) 20)) =
              calls dev @ [ClearEnqueuedReports, Write buf, Read 20]
          \<and> enqueued (snd (read (snd (device_write (clear_enqueued_reports dev) buf)) 20)) =
              drop 1 (reply dev buf))"
    by (simp add: ex exchange_calls exchange_enqueued)
  then show ?thesis
    unfolding buf_def Let_def .
qed

theorem set_color_transport_order_witness:
  "let buf = [0, 0x11, 0xFF, 0x02, 0x3A, 0x00, 0x03, 7, 8, 9, 0,
              0, 0, 0, 0, 0, 0, 0, 0, 0, 0 :: byte]
   in length buf = 21
      \<and> (\<forall>dev.
          set_color (g502\<lparr>device := dev\<rparr>) ''dpi'' ''rainbow''
              [[PyInt 7, PyInt 8, PyInt 9], [PyInt 4, PyInt 5, PyInt 6]] None [] =
            (Inr (),
             g502\<lparr>device :=
               snd (read (snd (device_write (clear_enqueued_reports dev) buf)) 20)\<rparr>)
          \<and> calls (snd (read (snd (device_write (clear_enqueued_reports dev) buf)) 20)) =
              calls dev @ [ClearEnqueuedReports, Write buf, Read 20]
          \<and> enqueued (snd (read (snd (device_write (clear_enqueued_reports dev) buf)) 20)) =
              drop 1 (reply dev buf))"
  using set_color_transport_order [of "''dpi''" "''rainbow''"
      "[[PyInt 7, PyInt 8, PyInt 9], [PyInt 4, PyInt 5, PyInt 6]]" 7 8 9 "[]" g502 None "[]"]
  by (simp add: lower_def char_lower_def)

section \<open>The storage keys built by connect\<close>

text \<open>
  C5. For a vendor and a product identifier below \<open>2 ^ 16\<close>, \<open>connect\<close> stores the
  key pair made of \<open>vid\<close>, the four lowercase hexadecimal digits of the vendor,
  \<open>_pid\<close> and the four digits of the product, and of \<open>loc\<close> followed by the maximal
  runs of decimal digits of the address, in order, joined with \<open>_\<close>. It raises
  nothing, and for an address without a digit the second key is \<open>loc\<close> alone. The
  witness is the example of the specification.
\<close>

theorem connect_storage_keys:
  assumes "vendor_id self < 65536" and "product_id self < 65536"
  shows "connect self kw =
      (Inr (), self\<lparr>data := Some \<lparr>key_prefixes =
         [''vid'' @ hex4 (vendor_id self) @ ''_pid'' @ hex4 (product_id self),
          ''loc'' @ join ''_'' (digit_runs (address self))]\<rparr>\<rparr>)
    \<and> ((\<forall>c \<in> set (address self). \<not> is_digit c) \<longrightarrow>
          connect self kw =
          (Inr (), self\<lparr>data := Some \<lparr>key_prefixes =
             [''vid'' @ hex4 (vendor_id self) @ ''_pid'' @ hex4 (product_id self),
              ''loc'']\<rparr>\<rparr>))"
  using assms
  by (simp add: connect_def format_04x_hex4 findall_digits_runs [symmetric]
      findall_digits_no_digit)

theorem connect_storage_keys_witness:
  "connect g502 [] =
     (Inr (), g502\<lparr>data := Some \<lparr>key_prefixes = [''vid046d_pidc08b'', ''loc3_4'']\<rparr>\<rparr>)
   \<and> connect (g502\<lparr>address := ''usb''\<rparr>) [] =
     (Inr (), g502\<lparr>address := ''usb'',
                   data := Some \<lparr>key_prefixes = [''vid046d_pidc08b'', ''loc'']\<rparr>\<rparr>)"
  using connect_storage_keys [of g502 "[]"]
    connect_storage_keys [of "g502\<lparr>address := ''usb''\<rparr>" "[]"]
  by (simp add: g502_def hex4_def hex_digit_def digit_runs_def is_digit_def)

section \<open>Unsupported and placeholder operations\<close>

text \<open>
  C7. Whatever the driver and the arguments, \<open>set_fixed_speed\<close> and
  \<open>set_speed_profile\<close> raise \<open>NotSupportedByDevice\<close> and leave the driver, hence the
  log of transport calls, exactly as it was.
\<close>

theorem speed_control_not_supported:
  "set_fixed_speed self channel duty kw = (Inl NotSupportedByDevice, self)
   \<and> set_speed_profile self channel profile kw' = (Inl NotSupportedByDevice, self)
   \<and> calls (device (snd (set_fixed_speed self channel duty kw))) = calls (device self)
   \<and> calls (device (snd (set_speed_profile self channel profile kw'))) = calls (device self)"
  by (simp add: set_fixed_speed_def set_speed_profile_def)

text \<open>
  C8. Whatever the driver and the arguments, \<open>initialize\<close> and \<open>get_status\<close> return
  the empty list and leave the driver, hence the log of transport calls, exactly as it
  was.
\<close>

theorem initialize_get_status_empty:
  "initialize self pump_mode kw = (Inr [], self)
   \<and> get_status self kw' = (Inr [], self)
   \<and> calls (device (snd (initialize self pump_mode kw))) = calls (device self)
   \<and> calls (device (snd (get_status self kw'))) = calls (device self)"
  by (simp add: initialize_def get_status_def)

end
